theory Spec2Isabelle
  imports Main "HOL-Library.Word"
begin

section \<open>The Modal component of discord/ui/modal.py\<close>

text \<open>
  The development embeds \<^verbatim>\<open>class Modal(View)\<close> of \<^verbatim>\<open>discord/ui/modal.py\<close>:
  its initialiser, \<^verbatim>\<open>add_item\<close>, \<^verbatim>\<open>is_persistent\<close>, \<^verbatim>\<open>to_callback_data\<close> and the class
  hook \<^verbatim>\<open>__init_subclass__\<close>. An exception is a value \<open>Inl e\<close> of a sum type, a mutation of
  \<^verbatim>\<open>self\<close> is a new record, and the collaborators whose code is outside the module
  (\<^verbatim>\<open>View.__init__\<close>, \<^verbatim>\<open>View.to_components\<close>, the row allocator behind
  \<^verbatim>\<open>self.__weights\<close>, \<^verbatim>\<open>os.urandom\<close>) are parameters of the functions that call them.
\<close>

subsection \<open>Data model\<close>

text \<open>
  The exceptions the module raises itself are \<^verbatim>\<open>ValueError\<close> and \<^verbatim>\<open>TypeError\<close>, each
  with its message. \<open>AttributeError\<close> is what Python raises when an attribute that is
  read does not exist; it carries the name of that attribute.
\<close>

datatype error = ValueError string | TypeError string | AttributeError string

text \<open>
  An \<^verbatim>\<open>Item\<close> is seen by this module through three things only: the result of its
  \<^verbatim>\<open>is_persistent()\<close>, its back-reference \<^verbatim>\<open>_view\<close> (the identity of the container it was
  added to, \<open>None\<close> before any add) and whatever it serialises to, kept opaque as \<open>'c\<close>.
\<close>

record 'c item =
  item_is_persistent :: bool
  item_view :: "nat option"
  item_component :: 'c

text \<open>
  \<^verbatim>\<open>add_item\<close> checks its argument with \<^verbatim>\<open>isinstance(item, Item)\<close>, so the argument is
  any Python object: an item, or something else of which only \<^verbatim>\<open>repr\<close> of its class is
  read (for the message of the \<^verbatim>\<open>TypeError\<close>).
\<close>

datatype 'c pyobj = IsItem "'c item" | NotItem string

text \<open>
  The state of the object that \<^verbatim>\<open>Modal\<close> reads: the timeout (a float or \<^verbatim>\<open>None\<close>; the
  float type is left open as \<open>'f\<close>, only \<^verbatim>\<open>is None\<close> is ever asked of it) and the list
  \<^verbatim>\<open>children\<close>, annotated \<^verbatim>\<open>List[Item]\<close>. \<open>oid\<close> is the identity of the object, the
  value \<^verbatim>\<open>item._view = self\<close> stores.

  \<open>weights\<close> is the attribute that \<^verbatim>\<open>self.__weights\<close> names in \<^verbatim>\<open>add_item\<close>. Inside a
  class body Python rewrites a name that starts with two underscores and does not end
  with two to \<^verbatim>\<open>_Class__name\<close>, so inside \<^verbatim>\<open>class Modal\<close> it is the attribute
  \<^verbatim>\<open>_Modal__weights\<close>. The field is \<open>Some w\<close> when the object has that attribute, with
  \<open>w\<close> the state of the row allocator, and \<open>None\<close> when it has not. Nothing in the
  module assigns it, and a base class that writes \<^verbatim>\<open>self.__weights\<close> assigns
  \<^verbatim>\<open>_View__weights\<close>, another attribute.

  \<^verbatim>\<open>Modal\<close> extends the base state with the four attributes its initialiser assigns.
\<close>

record ('f, 'c, 'w) view =
  oid :: nat
  timeout :: "'f option"
  children :: "'c item list"
  weights :: "'w option"

record ('f, 'c, 'w) modal = "('f, 'c, 'w) view" +
  provided_custom_id :: bool
  title :: "string option"
  custom_id :: string
  row :: "int option"

subsection \<open>add\_item\<close>

text \<open>
  \<^verbatim>\<open>
  if len(self.children) > 5:
      raise ValueError('maximum number of children exceeded')
  if not isinstance(item, Item):
      raise TypeError(f'expected Item not {item.__class__!r}')
  self.__weights.add_item(item)
  item._view = self
  self.children.append(item)
  \<close>
  The third statement first reads the attribute \<^verbatim>\<open>_Modal__weights\<close>, which raises
  \<^verbatim>\<open>AttributeError\<close> when the object does not have it, and then calls the row allocator,
  the parameter \<open>weights_add_item\<close>: it takes the item and its own state and either
  raises or returns its new state. Nothing is assumed about the allocator.
\<close>

definition add_item ::
  "('c item \<Rightarrow> 'w \<Rightarrow> error + 'w) \<Rightarrow> ('f, 'c, 'w) modal \<Rightarrow> 'c pyobj \<Rightarrow> error + ('f, 'c, 'w) modal"
where
  "add_item weights_add_item self obj =
     (if length (children self) > 5
      then Inl (ValueError ''maximum number of children exceeded'')
      else case obj of
        NotItem cls \<Rightarrow> Inl (TypeError (''expected Item not '' @ cls))
      | IsItem it \<Rightarrow>
          (case weights self of
             None \<Rightarrow> Inl (AttributeError ''_Modal__weights'')
           | Some w \<Rightarrow>
               (case weights_add_item it w of
                  Inl e \<Rightarrow> Inl e
                | Inr w' \<Rightarrow>
                    Inr (self\<lparr>weights := Some w',
                               children :=
                                 children self @ [it\<lparr>item_view := Some (oid self)\<rparr>]\<rparr>))))"

text \<open>
  Objects for concrete runs. \<open>base_view\<close> is a base initialiser that stores the timeout,
  starts with no children and leaves \<^verbatim>\<open>_Modal__weights\<close> unset; \<open>modal_with\<close> is a
  modal holding the given children, as the initialiser builds it.
\<close>

definition plain_item :: "unit item" where
  "plain_item = \<lparr>item_is_persistent = True, item_view = None, item_component = ()\<rparr>"

definition modal_with :: "unit item list \<Rightarrow> (unit, unit, unit) modal" where
  "modal_with cs =
     \<lparr>oid = 7, timeout = None, children = cs, weights = None,
      provided_custom_id = True, title = None, custom_id = ''form'', row = None\<rparr>"

definition base_view :: "unit option \<Rightarrow> (unit, unit, unit) view" where
  "base_view t = \<lparr>oid = 7, timeout = t, children = [], weights = None\<rparr>"

definition int_class_repr :: string where
  "int_class_repr = ''<class '' @ [CHR 0x27] @ ''int'' @ [CHR 0x27] @ ''>''"

subsection \<open>is\_persistent\<close>

text \<open>
  \<^verbatim>\<open>
  return self.timeout is None and self._provided_custom_id and
         all(item.is_persistent() for item in self.children)
  \<close>
  \<^verbatim>\<open>all\<close> walks the generator and stops at the first false element; \<^verbatim>\<open>and\<close> evaluates its
  right operand only when the left one is true.
\<close>

fun py_all :: "bool list \<Rightarrow> bool" where
  "py_all [] = True"
| "py_all (b # bs) = (if b then py_all bs else False)"

definition is_persistent :: "('f, 'c, 'w) modal \<Rightarrow> bool" where
  "is_persistent self =
     (if timeout self \<noteq> None then False
      else if \<not> provided_custom_id self then False
      else py_all (map item_is_persistent (children self)))"

subsection \<open>The initialiser\<close>

text \<open>
  \<^verbatim>\<open>os.urandom(n)\<close> returns \<open>n\<close> bytes of the operating system's random source. The source
  is a sequence of bytes; a call reads the first \<open>n\<close> and leaves the rest.
  \<^verbatim>\<open>bytes.hex()\<close> writes each byte as two digits of \<^verbatim>\<open>0123456789abcdef\<close>, the high
  nibble first.
\<close>

type_synonym rng = "nat \<Rightarrow> 8 word"

definition os_urandom :: "nat \<Rightarrow> rng \<Rightarrow> 8 word list \<times> rng" where
  "os_urandom n src = (map src [0..<n], \<lambda>i. src (i + n))"

definition hexdigits :: string where
  "hexdigits = ''0123456789abcdef''"

definition hex_byte :: "8 word \<Rightarrow> string" where
  "hex_byte b = [hexdigits ! (unat b div 16), hexdigits ! (unat b mod 16)]"

definition bytes_hex :: "8 word list \<Rightarrow> string" where
  "bytes_hex bs = concat (map hex_byte bs)"

text \<open>
  \<^verbatim>\<open>
  super().__init__(timeout=timeout)
  self._provided_custom_id: bool = custom_id is not MISSING
  self.title: Optional[str] = title
  self.custom_id: str = os.urandom(16).hex() if custom_id is MISSING else custom_id
  self.row: Optional[int] = row
  if children is not MISSING:
      self.children.extend(children)
  \<close>
  An argument that defaults to \<^verbatim>\<open>MISSING\<close> is an option, \<open>None\<close> standing for
  \<^verbatim>\<open>MISSING\<close>. \<open>View_init\<close> is the base initialiser, a parameter: it receives the timeout
  and returns the base state. The random source is threaded through: it is read only
  when no \<^verbatim>\<open>custom_id\<close> was passed.
\<close>

definition Modal_init ::
  "('f option \<Rightarrow> ('f, 'c, 'w) view) \<Rightarrow> rng \<Rightarrow> 'f option \<Rightarrow> string option \<Rightarrow> string option \<Rightarrow>
   int option \<Rightarrow> 'c item list option \<Rightarrow> ('f, 'c, 'w) modal \<times> rng"
where
  "Modal_init View_init src timeout_arg title_arg custom_id_arg row_arg children_arg =
     (let base = View_init timeout_arg;
          (cid, src') =
            (case custom_id_arg of
               None \<Rightarrow> (let (bs, s) = os_urandom 16 src in (bytes_hex bs, s))
             | Some c \<Rightarrow> (c, src));
          self = \<lparr>oid = oid base, timeout = timeout base, children = children base,
                  weights = weights base,
                  provided_custom_id = (custom_id_arg \<noteq> None), title = title_arg,
                  custom_id = cid, row = row_arg\<rparr>
      in (case children_arg of
            None \<Rightarrow> self
          | Some cs \<Rightarrow> self\<lparr>children := children self @ cs\<rparr>,
          src'))"

definition sample_rng :: rng where
  "sample_rng = (\<lambda>i. if even i then 0x3c else 0xa7)"

subsection \<open>to\_callback\_data\<close>

text \<open>
  \<^verbatim>\<open>
  payload = {'custom_id': self.custom_id, 'components': self.to_components()}
  if self.title is not None:
      payload['title'] = self.title
  return payload
  \<close>
  The payload is a dictionary from strings to values, which are strings or the component
  list \<open>'p\<close> that \<^verbatim>\<open>to_components\<close> returns. \<^verbatim>\<open>to_components\<close> is a method of the base
  class and a parameter here; as a method of \<^verbatim>\<open>self\<close> it returns its result together with
  the object as it leaves it. The function returns the payload and the object as it
  stands at the end.
\<close>

datatype 'p pyval = PyStr string | PyComponents 'p

definition to_callback_data ::
  "(('f, 'c, 'w) modal \<Rightarrow> 'p \<times> ('f, 'c, 'w) modal) \<Rightarrow> ('f, 'c, 'w) modal \<Rightarrow>
   (string \<rightharpoonup> 'p pyval) \<times> ('f, 'c, 'w) modal"
where
  "to_callback_data to_components self =
     (let cid = custom_id self;
          (comps, self') = to_components self;
          payload = [''custom_id'' \<mapsto> PyStr cid, ''components'' \<mapsto> PyComponents comps]
      in (case title self' of
            None \<Rightarrow> payload
          | Some t \<Rightarrow> payload(''title'' \<mapsto> PyStr t),
          self'))"

text \<open>
  Modelled from the spec: \<^verbatim>\<open>View.to_components\<close>, the method \<^verbatim>\<open>to_callback_data\<close> calls,
  is not in the module. The spec describes its result as the serialized, row-grouped
  representation of all children, produced by the container's layout serializer, and the
  serialization step as a pure read that never mutates the object. So it is the layout
  serializer \<open>layout\<close>, a function of the children, and it returns the object as it
  found it. How the children are grouped into rows is left to \<open>layout\<close>.
\<close>

definition View_to_components ::
  "('c item list \<Rightarrow> 'p) \<Rightarrow> ('f, 'c, 'w) modal \<Rightarrow> 'p \<times> ('f, 'c, 'w) modal"
where
  "View_to_components layout self = (layout (children self), self)"

text \<open>A serialiser for concrete runs: the components of the children, in order.\<close>

definition list_components :: "('f, 'c, 'w) modal \<Rightarrow> 'c list \<times> ('f, 'c, 'w) modal" where
  "list_components self = (map item_component (children self), self)"

subsection \<open>\_\_init\_subclass\_\_\<close>

text \<open>
  \<^verbatim>\<open>
  children: List[ItemCallbackType] = []
  for base in reversed(cls.__mro__):
      for member in base.__dict__.values():
          if hasattr(member, '__discord_ui_model_type__'):
              children.append(member)
  if len(children) > 5:
      raise TypeError('View cannot have more than 5 children')
  cls.__view_children_items__ = children
  \<close>
  A class is its dictionary: the members under their names, in definition order. Of a
  member the hook asks only whether it carries \<^verbatim>\<open>__discord_ui_model_type__\<close>; \<open>qualname\<close>
  tells the members apart. \<open>mro\<close> is \<^verbatim>\<open>cls.__mro__\<close>: the new class first, its oldest
  ancestor last. The result is the list stored in \<^verbatim>\<open>__view_children_items__\<close>.
\<close>

record member =
  has_model_type :: bool
  qualname :: string

type_synonym class_dict = "(string \<times> member) list"

fun scan_members :: "member list \<Rightarrow> member list \<Rightarrow> member list" where
  "scan_members acc [] = acc"
| "scan_members acc (m # ms) =
     scan_members (if has_model_type m then acc @ [m] else acc) ms"

fun scan_bases :: "member list \<Rightarrow> class_dict list \<Rightarrow> member list" where
  "scan_bases acc [] = acc"
| "scan_bases acc (b # bs) = scan_bases (scan_members acc (map snd b)) bs"

definition init_subclass :: "class_dict list \<Rightarrow> error + member list" where
  "init_subclass mro =
     (let collected = scan_bases [] (rev mro)
      in if length collected > 5
         then Inl (TypeError ''View cannot have more than 5 children'')
         else Inr collected)"

text \<open>
  What the chain declares, read off the dictionaries without running the loop: the tagged
  entries of one class, the number of tagged entries in the whole chain (a name declared
  in two classes is two entries), and the set of names under which tagged entries stand.
\<close>

definition tagged_entries :: "class_dict \<Rightarrow> member list" where
  "tagged_entries b = filter has_model_type (map snd b)"

definition tagged_count :: "class_dict list \<Rightarrow> nat" where
  "tagged_count mro = sum_list (map (\<lambda>b. length (tagged_entries b)) mro)"

definition tagged_names :: "class_dict list \<Rightarrow> string set" where
  "tagged_names mro = set (map fst (filter (\<lambda>(n, m). has_model_type m) (concat mro)))"

text \<open>
  Classes for concrete runs. \<open>Base\<close> declares three tagged members, \<open>Derived\<close> overrides
  all three, \<open>Override\<close> overrides one; \<open>Five\<close> declares five and \<open>Six\<close> adds a sixth.
\<close>

definition tagged_member :: "string \<Rightarrow> member" where
  "tagged_member q = \<lparr>has_model_type = True, qualname = q\<rparr>"

definition plain_member :: "string \<Rightarrow> member" where
  "plain_member q = \<lparr>has_model_type = False, qualname = q\<rparr>"

definition object_dict :: class_dict where
  "object_dict = [(''__repr__'', plain_member ''object.__repr__'')]"

definition View_dict :: class_dict where
  "View_dict = [(''__init__'', plain_member ''View.__init__''),
                (''to_components'', plain_member ''View.to_components'')]"

definition Modal_dict :: class_dict where
  "Modal_dict = [(''__init__'', plain_member ''Modal.__init__''),
                 (''add_item'', plain_member ''Modal.add_item'')]"

definition Base_dict :: class_dict where
  "Base_dict = [(''a'', tagged_member ''Base.a''), (''b'', tagged_member ''Base.b''),
                (''c'', tagged_member ''Base.c'')]"

definition Derived_dict :: class_dict where
  "Derived_dict = [(''a'', tagged_member ''Derived.a''), (''b'', tagged_member ''Derived.b''),
                   (''c'', tagged_member ''Derived.c'')]"

definition Override_dict :: class_dict where
  "Override_dict = [(''a'', tagged_member ''Override.a'')]"

definition Five_dict :: class_dict where
  "Five_dict = [(''a'', tagged_member ''Five.a''), (''b'', tagged_member ''Five.b''),
                (''help'', plain_member ''Five.help''),
                (''c'', tagged_member ''Five.c''), (''d'', tagged_member ''Five.d''),
                (''e'', tagged_member ''Five.e'')]"

definition Six_dict :: class_dict where
  "Six_dict = [(''f'', tagged_member ''Six.f'')]"

lemmas dict_defs =
  object_dict_def View_dict_def Modal_dict_def Base_dict_def Derived_dict_def
  Override_dict_def Five_dict_def Six_dict_def tagged_member_def plain_member_def

section \<open>Properties\<close>

subsection \<open>Auxiliary facts\<close>

lemma py_all_iff: "py_all bs = (\<forall>b \<in> set bs. b)"
  by (induction bs) auto

text \<open>
  What \<^verbatim>\<open>add_item\<close> does with an item at five children, for any object and any
  allocator: the guard lets the call through to the read of \<^verbatim>\<open>_Modal__weights\<close>. A call
  that returns has added one child to a list of at most five, and it returns only on an
  object that has the attribute.
\<close>

lemma add_item_at_five:
  "length (children self) = 5 \<Longrightarrow>
   add_item wa self (IsItem it) =
     (case weights self of
        None \<Rightarrow> Inl (AttributeError ''_Modal__weights'')
      | Some w \<Rightarrow>
          (case wa it w of
             Inl e \<Rightarrow> Inl e
           | Inr w' \<Rightarrow>
               Inr (self\<lparr>weights := Some w',
                          children := children self @ [it\<lparr>item_view := Some (oid self)\<rparr>]\<rparr>)))"
  by (simp add: add_item_def)

lemma add_item_length:
  "add_item wa self obj = Inr self' \<Longrightarrow>
   length (children self') = Suc (length (children self)) \<and> length (children self') \<le> 6 \<and>
   weights self \<noteq> None"
  by (auto simp: add_item_def split: if_splits pyobj.splits sum.splits option.splits)

text \<open>
  \<^verbatim>\<open>to_callback_data\<close> has no assignment of its own: the object it returns is the object
  its one callee returns.
\<close>

lemma to_callback_data_frame: "snd (to_callback_data tc self) = snd (tc self)"
  by (simp add: to_callback_data_def Let_def case_prod_unfold)

lemma scan_members_eq: "scan_members acc ms = acc @ filter has_model_type ms"
  by (induction ms arbitrary: acc) auto

lemma scan_bases_eq: "scan_bases acc bs = acc @ concat (map tagged_entries bs)"
  by (induction bs arbitrary: acc) (auto simp: scan_members_eq tagged_entries_def)

lemma length_collected: "length (concat (map tagged_entries (rev mro))) = tagged_count mro"
  by (induction mro) (auto simp: tagged_count_def)

lemma card_tagged_names_le: "card (tagged_names mro) \<le> tagged_count mro"
proof -
  have "length (filter (\<lambda>(n, m). has_model_type m) (concat mro)) = tagged_count mro"
    by (induction mro)
      (auto simp: tagged_count_def tagged_entries_def filter_map comp_def case_prod_unfold)
  moreover have
    "card (tagged_names mro) \<le> length (filter (\<lambda>(n, m). has_model_type m) (concat mro))"
    unfolding tagged_names_def by (metis card_length length_map)
  ultimately show ?thesis by simp
qed

lemma length_hexdigits: "length hexdigits = 16"
  by (simp add: hexdigits_def)

lemma hexdigit_in: "n < 16 \<Longrightarrow> hexdigits ! n \<in> set hexdigits"
  using nth_mem [of n hexdigits] by (simp only: length_hexdigits)

lemma hex_byte_chars: "set (hex_byte b) \<subseteq> set hexdigits"
proof -
  have "unat b mod 16 < 16" by simp
  moreover have "unat b div 16 < 16"
    using unsigned_less [of b, where 'a = nat] by (simp add: less_mult_imp_div_less)
  ultimately show ?thesis
    unfolding hex_byte_def using hexdigit_in by simp
qed

lemma length_bytes_hex: "length (bytes_hex bs) = 2 * length bs"
  by (induction bs) (auto simp: bytes_hex_def hex_byte_def)

lemma bytes_hex_chars: "set (bytes_hex bs) \<subseteq> set hexdigits"
  using hex_byte_chars by (auto simp: bytes_hex_def)

subsection \<open>The runtime cap of add\_item\<close>

text \<open>
  C1. Claimed: with five children already held, \<^verbatim>\<open>add_item\<close> of a sixth fails with the
  capacity error, a fifth added to four succeeds, and the call rejects with that error
  whenever five or more are held. The guard of the source is
  \<^verbatim>\<open>len(self.children) > 5\<close>, tested before the append, so at five children it does not
  fire and the call runs on. The runs below are the source on a modal built by the
  initialiser, for every allocator. With five children an item gets the
  \<^verbatim>\<open>AttributeError\<close> of the read of \<^verbatim>\<open>_Modal__weights\<close> and a non-item gets the
  \<^verbatim>\<open>TypeError\<close>: neither is the capacity error. With four children the item gets the
  same \<^verbatim>\<open>AttributeError\<close>: the add does not succeed.
\<close>

theorem add_item_at_five_no_capacity_error:
  "add_item wa
     (fst (Modal_init base_view sample_rng (Some ()) None (Some ''form'') None
             (Some (replicate 5 plain_item))))
     (IsItem plain_item) = Inl (AttributeError ''_Modal__weights'') \<and>
   add_item wa
     (fst (Modal_init base_view sample_rng (Some ()) None (Some ''form'') None
             (Some (replicate 5 plain_item))))
     (NotItem int_class_repr) = Inl (TypeError (''expected Item not '' @ int_class_repr)) \<and>
   add_item wa
     (fst (Modal_init base_view sample_rng (Some ()) None (Some ''form'') None
             (Some (replicate 4 plain_item))))
     (IsItem plain_item) = Inl (AttributeError ''_Modal__weights'')"
  by (simp add: add_item_def Modal_init_def base_view_def)

text \<open>
  C10. In \<^verbatim>\<open>add_item\<close> the capacity check comes before the type check. Whatever the
  argument is, an item or not, a modal holding more than five children answers with the
  \<^verbatim>\<open>ValueError\<close>; a \<^verbatim>\<open>TypeError\<close> can only come out when at most five children are held;
  and with at most five children a non-item gets the \<^verbatim>\<open>TypeError\<close> of the source, whose
  message ends in the \<^verbatim>\<open>repr\<close> of the argument's class.
\<close>

theorem add_item_capacity_before_type:
  "(length (children self) > 5 \<longrightarrow>
      add_item wa self obj = Inl (ValueError ''maximum number of children exceeded'')) \<and>
   (add_item wa self obj = Inl (TypeError msg) \<longrightarrow> length (children self) \<le> 5) \<and>
   (length (children self) \<le> 5 \<longrightarrow>
      add_item wa self (NotItem cls) = Inl (TypeError (''expected Item not '' @ cls)))"
  by (auto simp: add_item_def split: pyobj.splits sum.splits option.splits)

theorem add_item_capacity_before_type_witness:
  "length (children (modal_with (replicate 6 plain_item))) > 5 \<and>
   add_item (\<lambda>it w. Inr w) (modal_with (replicate 6 plain_item)) (NotItem int_class_repr) =
     Inl (ValueError ''maximum number of children exceeded'') \<and>
   length (children (modal_with (replicate 5 plain_item))) \<le> 5 \<and>
   add_item (\<lambda>it w. Inr w) (modal_with (replicate 5 plain_item)) (NotItem int_class_repr) =
     Inl (TypeError (''expected Item not '' @ int_class_repr))"
  using add_item_capacity_before_type
          [of "modal_with (replicate 6 plain_item)" "\<lambda>it w. Inr w" "NotItem int_class_repr"]
        add_item_capacity_before_type
          [of "modal_with (replicate 5 plain_item)" "\<lambda>it w. Inr w" _ _ int_class_repr]
  by (simp add: modal_with_def)

subsection \<open>Children passed to the initialiser\<close>

text \<open>
  C2. Claimed: children passed to the initialiser go through the path of \<^verbatim>\<open>add_item\<close>
  (order kept, cap of five enforced, type checked, back-reference set). The source
  extends the list directly, \<^verbatim>\<open>self.children.extend(children)\<close>. The run below is the
  source on six items: no exception, six children in the order given, none of them bound
  to the modal (\<open>item_view\<close> stays \<open>None\<close>), and the allocator never consulted
  (\<open>weights\<close> stays as the base initialiser left it).
\<close>

theorem Modal_init_six_children:
  "fst (Modal_init base_view sample_rng (Some ()) None (Some ''form'') None
          (Some (replicate 6 plain_item))) =
     \<lparr>oid = 7, timeout = Some (), children = replicate 6 plain_item, weights = None,
      provided_custom_id = True, title = None, custom_id = ''form'', row = None\<rparr>"
  by (simp add: Modal_init_def base_view_def)

text \<open>
  C3. Claimed invariant: a modal reached by construction and \<^verbatim>\<open>add_item\<close> calls never
  holds more than five children. Construction alone breaks it: for every base
  initialiser, the children after the initialiser are those of the base followed by the
  whole list passed, however long. The run is the source on seven items: the modal
  holds seven children, and an \<^verbatim>\<open>add_item\<close> call on it raises the capacity error and
  leaves the seven in place.
\<close>

theorem Modal_init_children_exceed_cap:
  "children (fst (Modal_init vi src t ti c r (Some cs))) = children (vi t) @ cs \<and>
   length (children
     (fst (Modal_init base_view sample_rng (Some ()) None (Some ''form'') None
             (Some (replicate 7 plain_item))))) = 7 \<and>
   add_item wa
     (fst (Modal_init base_view sample_rng (Some ()) None (Some ''form'') None
             (Some (replicate 7 plain_item))))
     obj = Inl (ValueError ''maximum number of children exceeded'')"
  by (simp add: add_item_def Modal_init_def base_view_def Let_def case_prod_unfold
      split: option.splits)

subsection \<open>Persistence\<close>

text \<open>
  C4. For every modal, \<^verbatim>\<open>is_persistent()\<close> is true exactly when the timeout is \<^verbatim>\<open>None\<close>,
  the \<^verbatim>\<open>custom_id\<close> was passed by the caller, and every child reports itself persistent;
  otherwise it is false.
\<close>

theorem is_persistent_iff:
  "is_persistent self =
     (timeout self = None \<and> provided_custom_id self \<and>
      (\<forall>it \<in> set (children self). item_is_persistent it))"
  by (auto simp: is_persistent_def py_all_iff)

theorem is_persistent_iff_witness:
  "is_persistent (modal_with [plain_item, plain_item]) \<and>
   timeout (modal_with [plain_item, plain_item]) = None \<and>
   provided_custom_id (modal_with [plain_item, plain_item]) \<and>
   children (modal_with [plain_item, plain_item]) = [plain_item, plain_item] \<and>
   item_is_persistent plain_item \<and>
   \<not> is_persistent (modal_with [plain_item, plain_item\<lparr>item_is_persistent := False\<rparr>])"
  using is_persistent_iff [of "modal_with [plain_item, plain_item]"]
    is_persistent_iff [of "modal_with [plain_item, plain_item\<lparr>item_is_persistent := False\<rparr>]"]
  by (simp add: modal_with_def plain_item_def)

subsection \<open>The callback payload\<close>

text \<open>
  C5, as the source has it. The payload of \<^verbatim>\<open>to_callback_data()\<close> always holds
  \<^verbatim>\<open>custom_id\<close>, the identifier string of the modal, and \<^verbatim>\<open>components\<close>, the result of
  \<^verbatim>\<open>to_components()\<close>; it holds \<^verbatim>\<open>title\<close> exactly when the title is not \<^verbatim>\<open>None\<close>, and then
  with the title as its value; it holds no other key. The title is the one the object
  has when the call returns, \<open>self'\<close>, which is the object as \<^verbatim>\<open>to_components\<close> left it.
\<close>

theorem to_callback_data_payload:
  "to_callback_data tc self = (p, self') \<Longrightarrow>
     p ''custom_id'' = Some (PyStr (custom_id self)) \<and>
     p ''components'' = Some (PyComponents (fst (tc self))) \<and>
     p ''title'' = map_option PyStr (title self') \<and>
     (''title'' \<in> dom p) = (title self' \<noteq> None) \<and>
     dom p \<subseteq> {''custom_id'', ''components'', ''title''} \<and>
     self' = snd (tc self)"
  by (auto simp: to_callback_data_def Let_def case_prod_unfold split: option.splits if_splits)

text \<open>
  The payload of a modal with title \<^verbatim>\<open>None\<close> has no \<^verbatim>\<open>title\<close> key; with title
  \<^verbatim>\<open>"Form"\<close> it has \<^verbatim>\<open>"title": "Form"\<close>.
\<close>

theorem to_callback_data_payload_witness:
  "to_callback_data list_components (modal_with [plain_item]) =
     ([''custom_id'' \<mapsto> PyStr ''form'', ''components'' \<mapsto> PyComponents [()]],
      modal_with [plain_item]) \<and>
   ''title'' \<notin> dom (fst (to_callback_data list_components (modal_with [plain_item]))) \<and>
   fst (to_callback_data list_components (modal_with [plain_item]\<lparr>title := Some ''Form''\<rparr>))
     ''title'' = Some (PyStr ''Form'')"
proof -
  let ?m = "modal_with [plain_item]"
  let ?f = "modal_with [plain_item]\<lparr>title := Some ''Form''\<rparr>"
  have a: "to_callback_data list_components ?m =
     ([''custom_id'' \<mapsto> PyStr ''form'', ''components'' \<mapsto> PyComponents [()]], ?m)"
    by (simp add: to_callback_data_def list_components_def modal_with_def plain_item_def)
  have b: "to_callback_data list_components ?f =
     (fst (to_callback_data list_components ?f), snd (to_callback_data list_components ?f))"
    by simp
  have c: "snd (to_callback_data list_components ?f) = ?f"
    by (simp add: to_callback_data_def list_components_def)
  from to_callback_data_payload [OF a] to_callback_data_payload [OF b] a c
  show ?thesis by (simp add: modal_with_def)
qed

text \<open>
  C5 as claimed says the \<^verbatim>\<open>title\<close> key is there exactly when the title is non-empty. The
  guard of the source is \<^verbatim>\<open>self.title is not None\<close>: a modal whose title is the empty
  string has the key, with the empty string as its value.
\<close>

theorem to_callback_data_empty_title_counterexample:
  "title (modal_with [plain_item]\<lparr>title := Some []\<rparr>) = Some [] \<and>
   fst (to_callback_data list_components (modal_with [plain_item]\<lparr>title := Some []\<rparr>))
     ''title'' = Some (PyStr [])"
  by (simp add: to_callback_data_def list_components_def modal_with_def)

text \<open>
  C8. \<^verbatim>\<open>to_callback_data()\<close> mutates nothing and is deterministic. With
  \<^verbatim>\<open>to_components\<close> as the spec describes it, for every layout serializer and every
  modal: the modal after the call is the modal before it, field for field; a second call
  right after the first returns the same payload and again leaves the modal as it was;
  and for a modal constructed without a \<^verbatim>\<open>custom_id\<close>, the identifier in the payload is
  the one generated at construction from the first sixteen bytes of the random source,
  which the function does not read again.
\<close>

theorem to_callback_data_pure_read:
  "snd (to_callback_data (View_to_components layout) self) = self \<and>
   fst (to_callback_data (View_to_components layout)
          (snd (to_callback_data (View_to_components layout) self))) =
     fst (to_callback_data (View_to_components layout) self) \<and>
   snd (to_callback_data (View_to_components layout)
          (snd (to_callback_data (View_to_components layout) self))) = self \<and>
   fst (to_callback_data (View_to_components layout)
          (fst (Modal_init vi src t ti None r ch))) ''custom_id'' =
     Some (PyStr (bytes_hex (fst (os_urandom 16 src))))"
proof -
  have unchanged: "snd (to_callback_data (View_to_components layout) m) = m" for m
    by (simp add: to_callback_data_frame View_to_components_def)
  have cid: "fst (to_callback_data (View_to_components layout) m) ''custom_id'' =
      Some (PyStr (custom_id m))" for m
    by (simp add: to_callback_data_def View_to_components_def Let_def split: option.splits)
  have gen: "custom_id (fst (Modal_init vi src t ti None r ch)) =
      bytes_hex (fst (os_urandom 16 src))"
    by (simp add: Modal_init_def Let_def case_prod_unfold split: option.splits)
  show ?thesis
    by (simp only: unchanged cid gen simp_thms)
qed

theorem to_callback_data_pure_read_witness:
  "to_callback_data (View_to_components (map item_component))
     (modal_with [plain_item]\<lparr>title := Some ''Form''\<rparr>) =
     ([''custom_id'' \<mapsto> PyStr ''form'', ''components'' \<mapsto> PyComponents [()],
       ''title'' \<mapsto> PyStr ''Form''],
      modal_with [plain_item]\<lparr>title := Some ''Form''\<rparr>) \<and>
   fst (to_callback_data (View_to_components (map item_component))
          (snd (to_callback_data (View_to_components (map item_component))
                  (modal_with [plain_item]\<lparr>title := Some ''Form''\<rparr>)))) =
     fst (to_callback_data (View_to_components (map item_component))
            (modal_with [plain_item]\<lparr>title := Some ''Form''\<rparr>)) \<and>
   fst (to_callback_data (View_to_components (map item_component))
          (fst (Modal_init base_view sample_rng (Some ()) None None None
                  (Some [plain_item])))) ''custom_id'' =
     Some (PyStr ''3ca73ca73ca73ca73ca73ca73ca73ca7'')"
proof -
  let ?tc = "View_to_components (map item_component) ::
    (unit, unit, unit) modal \<Rightarrow> unit list \<times> (unit, unit, unit) modal"
  let ?f = "modal_with [plain_item]\<lparr>title := Some ''Form''\<rparr>"
  have run: "to_callback_data ?tc ?f =
     ([''custom_id'' \<mapsto> PyStr ''form'', ''components'' \<mapsto> PyComponents [()],
       ''title'' \<mapsto> PyStr ''Form''], ?f)"
    by (simp add: to_callback_data_def View_to_components_def modal_with_def plain_item_def)
  have hex: "bytes_hex (fst (os_urandom 16 sample_rng)) = ''3ca73ca73ca73ca73ca73ca73ca73ca7''"
    by (simp add: os_urandom_def bytes_hex_def hex_byte_def hexdigits_def sample_rng_def upt_rec)
  from to_callback_data_pure_read
         [of "map item_component" ?f base_view sample_rng "Some ()" None None "Some [plain_item]"]
       run hex
  show ?thesis by simp
qed

subsection \<open>The generated identifier\<close>

text \<open>
  C9. With no \<^verbatim>\<open>custom_id\<close> passed, the identifier is the hex encoding of the sixteen
  bytes \<^verbatim>\<open>os.urandom(16)\<close> returns: thirty-two characters, each one of
  \<^verbatim>\<open>0123456789abcdef\<close>, and \<^verbatim>\<open>_provided_custom_id\<close> is false. With a \<^verbatim>\<open>custom_id\<close> passed,
  that string is stored as it is and the flag is true.
\<close>

theorem Modal_init_custom_id:
  "custom_id (fst (Modal_init vi src t ti None r ch)) = bytes_hex (fst (os_urandom 16 src)) \<and>
   length (fst (os_urandom 16 src)) = 16 \<and>
   length (custom_id (fst (Modal_init vi src t ti None r ch))) = 32 \<and>
   set (custom_id (fst (Modal_init vi src t ti None r ch))) \<subseteq> set ''0123456789abcdef'' \<and>
   \<not> provided_custom_id (fst (Modal_init vi src t ti None r ch)) \<and>
   custom_id (fst (Modal_init vi src t ti (Some c) r ch)) = c \<and>
   provided_custom_id (fst (Modal_init vi src t ti (Some c) r ch))"
proof -
  have len: "length (fst (os_urandom 16 src)) = 16"
    by (simp add: os_urandom_def)
  have cid: "custom_id (fst (Modal_init vi src t ti None r ch)) =
      bytes_hex (fst (os_urandom 16 src))"
    by (simp add: Modal_init_def Let_def case_prod_unfold split: option.splits)
  have "set (bytes_hex (fst (os_urandom 16 src))) \<subseteq> set ''0123456789abcdef''"
    using bytes_hex_chars [of "fst (os_urandom 16 src)"] by (simp only: hexdigits_def)
  with cid len show ?thesis
    by (simp add: length_bytes_hex)
      (simp add: Modal_init_def Let_def case_prod_unfold split: option.splits)
qed

theorem Modal_init_custom_id_witness:
  "custom_id (fst (Modal_init base_view sample_rng (Some ()) None None None None)) =
     ''3ca73ca73ca73ca73ca73ca73ca73ca7'' \<and>
   length (custom_id (fst (Modal_init base_view sample_rng (Some ()) None None None None))) = 32 \<and>
   set (custom_id (fst (Modal_init base_view sample_rng (Some ()) None None None None)))
     \<subseteq> set ''0123456789abcdef''"
proof -
  have "bytes_hex (fst (os_urandom 16 sample_rng)) = ''3ca73ca73ca73ca73ca73ca73ca73ca7''"
    by (simp add: os_urandom_def bytes_hex_def hex_byte_def hexdigits_def sample_rng_def upt_rec)
  then show ?thesis
    using Modal_init_custom_id [of base_view sample_rng "Some ()" None None None]
    by simp
qed

subsection \<open>The definition-time cap of \_\_init\_subclass\_\_\<close>

text \<open>
  C6. The hook runs when a subclass is defined and takes the class alone, no instance.
  If the chain, scanned oldest ancestor first, declares more than five tagged members,
  it raises the \<^verbatim>\<open>TypeError\<close> of the source; this holds counting the declarations
  (\<open>tagged_count\<close>) and also counting the distinct names (\<open>tagged_names\<close>). If the chain
  declares exactly five, the hook returns normally and stores a list of five.
\<close>

theorem init_subclass_cap:
  "(tagged_count mro > 5 \<longrightarrow>
      init_subclass mro = Inl (TypeError ''View cannot have more than 5 children'')) \<and>
   (card (tagged_names mro) > 5 \<longrightarrow>
      init_subclass mro = Inl (TypeError ''View cannot have more than 5 children'')) \<and>
   (tagged_count mro = 5 \<longrightarrow>
      (\<exists>cs. init_subclass mro = Inr cs \<and> length cs = 5))"
  using card_tagged_names_le [of mro]
  by (auto simp: init_subclass_def scan_bases_eq length_collected Let_def)

theorem init_subclass_cap_witness:
  "tagged_count [Six_dict, Five_dict, Modal_dict, View_dict, object_dict] > 5 \<and>
   card (tagged_names [Six_dict, Five_dict, Modal_dict, View_dict, object_dict]) > 5 \<and>
   init_subclass [Six_dict, Five_dict, Modal_dict, View_dict, object_dict] =
     Inl (TypeError ''View cannot have more than 5 children'') \<and>
   tagged_count [Five_dict, Modal_dict, View_dict, object_dict] = 5 \<and>
   (\<exists>cs. init_subclass [Five_dict, Modal_dict, View_dict, object_dict] = Inr cs \<and>
         length cs = 5)"
  using init_subclass_cap [of "[Six_dict, Five_dict, Modal_dict, View_dict, object_dict]"]
    init_subclass_cap [of "[Five_dict, Modal_dict, View_dict, object_dict]"]
  by (simp add: tagged_count_def tagged_entries_def tagged_names_def dict_defs)

text \<open>
  C7, as the source has it. The hook collects into a list with \<^verbatim>\<open>append\<close> and never looks
  at a name: the list holds every tagged entry of every class dictionary of the chain,
  oldest ancestor first, so a member that a subclass overrides is in it once for the
  ancestor and once for the subclass, and each of the two counts toward the cap of five.
\<close>

theorem init_subclass_collects_every_entry:
  "init_subclass mro =
     (if tagged_count mro > 5
      then Inl (TypeError ''View cannot have more than 5 children'')
      else Inr (concat (map tagged_entries (rev mro))))"
  by (simp add: init_subclass_def scan_bases_eq length_collected Let_def)

text \<open>
  C7 as claimed says an override replaces the ancestor's entry, so that an overridden
  member counts once. \<open>Override\<close> overrides \<^verbatim>\<open>a\<close> of \<open>Base\<close>: the list has both
  \<^verbatim>\<open>Base.a\<close> and \<^verbatim>\<open>Override.a\<close>, four entries for three names. \<open>Derived\<close> overrides all
  three members of \<open>Base\<close>: three names, six entries, and the definition is refused.
\<close>

theorem init_subclass_override_counterexample:
  "init_subclass [Override_dict, Base_dict, Modal_dict, View_dict, object_dict] =
     Inr [tagged_member ''Base.a'', tagged_member ''Base.b'', tagged_member ''Base.c'',
          tagged_member ''Override.a''] \<and>
   tagged_names [Override_dict, Base_dict, Modal_dict, View_dict, object_dict] =
     {''a'', ''b'', ''c''} \<and>
   tagged_names [Derived_dict, Base_dict, Modal_dict, View_dict, object_dict] =
     {''a'', ''b'', ''c''} \<and>
   init_subclass [Derived_dict, Base_dict, Modal_dict, View_dict, object_dict] =
     Inl (TypeError ''View cannot have more than 5 children'')"
  by (auto simp: init_subclass_def dict_defs tagged_names_def)

end
